theory Spec2Isabelle
  imports Main "HOL-Library.List_Lexorder"
begin

section \<open>Python strings\<close>

text \<open>
  A Python \<open>str\<close> is a sequence of Unicode code points: \<open>len\<close> counts code points and
  comparison is lexicographic on them. A string is therefore a list of code points
  (natural numbers), ordered by the lexicographic order on lists. The literals of
  \<open>main.py\<close> outside ASCII are the code points 8217 (right single quotation mark),
  8226 (bullet), 8230 (horizontal ellipsis) and 8594 (rightwards arrow).
\<close>

type_synonym pystr = "nat list"

text \<open>An ASCII literal of the source, as code points.\<close>

definition lit :: "string \<Rightarrow> pystr" where
  "lit s = map of_char s"

text \<open>
  The characters that \<open>str.split()\<close> and \<open>str.strip()\<close> without argument treat as
  whitespace (CPython's \<open>Py_UNICODE_ISSPACE\<close>).
\<close>

definition isspace :: "nat \<Rightarrow> bool" where
  "isspace c = ((9 \<le> c \<and> c \<le> 13) \<or> (28 \<le> c \<and> c \<le> 32) \<or> c = 133 \<or> c = 160
     \<or> c = 5760 \<or> (8192 \<le> c \<and> c \<le> 8202) \<or> c = 8232 \<or> c = 8233 \<or> c = 8239
     \<or> c = 8287 \<or> c = 12288)"

text \<open>\<open>s.strip(chars)\<close> removes the leading and trailing characters that satisfy \<open>P\<close>.\<close>

definition strip_where :: "(nat \<Rightarrow> bool) \<Rightarrow> pystr \<Rightarrow> pystr" where
  "strip_where P s = rev (dropWhile P (rev (dropWhile P s)))"

definition strip :: "pystr \<Rightarrow> pystr" where
  "strip s = strip_where isspace s"

definition strip_chars :: "pystr \<Rightarrow> pystr \<Rightarrow> pystr" where
  "strip_chars chars s = strip_where (\<lambda>c. List.member chars c) s"

text \<open>
  \<open>s.split()\<close>: the maximal runs of non-whitespace characters, in order; never an
  empty token. The first argument is the token being read.
\<close>

fun split_run :: "pystr \<Rightarrow> pystr \<Rightarrow> pystr list" where
  "split_run cur [] = (if cur = [] then [] else [cur])"
| "split_run cur (c # cs) =
     (if isspace c then (if cur = [] then split_run [] cs else cur # split_run [] cs)
      else split_run (cur @ [c]) cs)"

definition split :: "pystr \<Rightarrow> pystr list" where
  "split s = split_run [] s"

text \<open>
  \<open>s.split(sep)\<close> for a separator of one character: every occurrence separates, so
  empty pieces are kept and the result has one piece more than there are separators.
\<close>

fun split_at :: "nat \<Rightarrow> pystr \<Rightarrow> pystr \<Rightarrow> pystr list" where
  "split_at sep cur [] = [cur]"
| "split_at sep cur (c # cs) =
     (if c = sep then cur # split_at sep [] cs else split_at sep (cur @ [c]) cs)"

definition split_sep :: "nat \<Rightarrow> pystr \<Rightarrow> pystr list" where
  "split_sep sep s = split_at sep [] s"

text \<open>\<open>sep.join(xs)\<close>.\<close>

fun join :: "pystr \<Rightarrow> pystr list \<Rightarrow> pystr" where
  "join sep [] = []"
| "join sep [x] = x"
| "join sep (x # y # ys) = x @ sep @ join sep (y # ys)"

text \<open>\<open>s.startswith(p)\<close> and \<open>p in s\<close>.\<close>

fun startswith :: "pystr \<Rightarrow> pystr \<Rightarrow> bool" where
  "startswith s [] = True"
| "startswith [] (p # ps) = False"
| "startswith (c # cs) (p # ps) = (c = p \<and> startswith cs ps)"

fun contains :: "pystr \<Rightarrow> pystr \<Rightarrow> bool" where
  "contains [] p = (p = [])"
| "contains (c # cs) p = (startswith (c # cs) p \<or> contains cs p)"

text \<open>
  \<open>s.lower()\<close>. On a string of ASCII characters it maps \<open>A\<close>..\<open>Z\<close> to \<open>a\<close>..\<open>z\<close> and
  leaves the rest. On other strings it applies the case mapping of the interpreter's
  Unicode database, which is not part of the repository: it is the parameter \<open>ucd\<close>.
\<close>

definition lower :: "(pystr \<Rightarrow> pystr) \<Rightarrow> pystr \<Rightarrow> pystr" where
  "lower ucd s =
     (if list_all (\<lambda>c. c < 128) s
      then map (\<lambda>c. if 65 \<le> c \<and> c \<le> 90 then c + 32 else c) s
      else ucd s)"

section \<open>Text utilities\<close>

text \<open>
  \<^verbatim>\<open>
  def summarize(text: str) -> str:
      words = text.split()
      if len(words) <= 12:
          return text
      return " ".join(words[:12]) + " [U+2026]"
  \<close>
\<close>

definition summarize :: "pystr \<Rightarrow> pystr" where
  "summarize text =
     (let words = split text in
      if length words \<le> 12 then text
      else join (lit '' '') (take 12 words) @ lit '' '' @ [8230])"

text \<open>
  \<^verbatim>\<open>
  def reflect(text: str) -> str:
      words = [w.strip('.,!?') for w in text.split()]
      key = ", ".join(sorted(set([w for w in words if len(w) > 5]))[:6])
      if key:
          return f"key points [U+2192] {key}"
      return "sounds interesting!"
  \<close>
  \<open>reflect_tokens\<close> is the list that is joined into \<open>key\<close>. The elements of a
  Python set are distinct and \<open>sorted\<close> returns them in ascending order, whatever the
  order the set yields them in: that is \<open>sort\<close> after \<open>remdups\<close>.
\<close>

definition reflect_words :: "pystr \<Rightarrow> pystr list" where
  "reflect_words text = map (strip_chars (lit ''.,!?'')) (split text)"

definition reflect_tokens :: "pystr \<Rightarrow> pystr list" where
  "reflect_tokens text =
     take 6 (sort (remdups (filter (\<lambda>w. length w > 5) (reflect_words text))))"

definition reflect :: "pystr \<Rightarrow> pystr" where
  "reflect text =
     (let key = join (lit '', '') (reflect_tokens text) in
      if key \<noteq> [] then lit ''key points '' @ [8594] @ lit '' '' @ key
      else lit ''sounds interesting!'')"

section \<open>Reply engine\<close>

text \<open>
  \<^verbatim>\<open>
  def generate_ai_reply(prompt: str) -> str:
      prompt = (prompt or "").strip()
      if not prompt:
          return "I'm here! Ask me anything."
      lower = prompt.lower()
      if any(g in lower for g in ["hello", "hi", "hey"]):
          return "Hey there! How can I help you today?"
      if lower.startswith("/help") or "help" in lower:
          return "I can answer questions, summarize, or brainstorm ideas. Just type your message!"
      if lower.startswith("/summarize"):
          text = prompt[len("/summarize"):].strip()
          return f"Summary: {summarize(text)}"
      if lower.startswith("/todo"):
          items = [i.strip() for i in prompt.split(" ")[1:]]
          bullets = "\n".join(f"[U+2022] {i}" for i in items if i)
          return f"Here[U+2019]s your checklist:\n{bullets}" if bullets else "Provide items after /todo"
      return f"You said: '{prompt}'. Here's a helpful thought: {reflect(prompt)}"
  \<close>
  The argument may be \<open>None\<close>, which \<open>prompt or ""\<close> replaces by the empty string.
\<close>

definition todo_reply :: "pystr \<Rightarrow> pystr" where
  "todo_reply prompt =
     (let items = map strip (drop 1 (split_sep 32 prompt));
          bullets = join [10] (map (\<lambda>i. [8226] @ lit '' '' @ i) (filter (\<lambda>i. i \<noteq> []) items))
      in if bullets \<noteq> [] then lit ''Here'' @ [8217] @ lit ''s your checklist:'' @ [10] @ bullets
         else lit ''Provide items after /todo'')"

definition generate_ai_reply :: "(pystr \<Rightarrow> pystr) \<Rightarrow> pystr option \<Rightarrow> pystr" where
  "generate_ai_reply ucd prompt0 =
     (let prompt = strip (case prompt0 of None \<Rightarrow> [] | Some p \<Rightarrow> p) in
      if prompt = [] then lit ''I'm here! Ask me anything.''
      else
        let lower = lower ucd prompt in
        if list_ex (\<lambda>g. contains lower g) [lit ''hello'', lit ''hi'', lit ''hey'']
        then lit ''Hey there! How can I help you today?''
        else if startswith lower (lit ''/help'') \<or> contains lower (lit ''help'')
        then lit ''I can answer questions, summarize, or brainstorm ideas. Just type your message!''
        else if startswith lower (lit ''/summarize'')
        then
          let text = strip (drop (length (lit ''/summarize'')) prompt)
          in lit ''Summary: '' @ summarize text
        else if startswith lower (lit ''/todo'')
        then todo_reply prompt
        else lit ''You said: '' @ [39] @ prompt @ [39]
               @ lit ''. Here's a helpful thought: '' @ reflect prompt)"

section \<open>Conversations and messages\<close>

text \<open>
  \<open>HTTPException(status_code, detail)\<close>, raised by the handlers.
\<close>

datatype http_exception = HTTPException (status_code: nat) (detail: string)

text \<open>
  The request schemas \<open>MessageCreate\<close> and \<open>SendMessageRequest\<close>, the dictionary
  \<open>msg_data\<close> (the dumped payload with its \<open>conversation_id\<close>), the response schema
  \<open>MessageOut\<close> and the documents of the two collections. A stored document carries
  the \<open>_id\<close> the store gave it.
\<close>

record MessageCreate =
  role :: pystr
  content :: pystr

record SendMessageRequest =
  req_content :: pystr

record message_data = MessageCreate +
  conversation_id :: pystr

record MessageOut = message_data +
  out_id :: pystr

record message_doc = message_data +
  message_oid :: nat

record conversation_doc =
  conversation_oid :: nat
  title :: pystr
  created_by :: "pystr option"

text \<open>
  The \<open>bson\<close> library is not part of the repository. Its \<open>ObjectId.is_valid\<close>, the
  constructor \<open>ObjectId\<close> from a string and \<open>str\<close> of an identifier are parameters;
  an identifier is a number.
\<close>

record bson =
  is_valid :: "pystr \<Rightarrow> bool"
  ObjectId :: "pystr \<Rightarrow> nat"
  str_oid :: "nat \<Rightarrow> pystr"

text \<open>
  The database: the collections \<open>conversation\<close> and \<open>message\<close>, each in insertion
  order, and the next identifier the store assigns. The global \<open>db\<close> of the module
  \<open>database\<close> is \<open>None\<close> when no database is configured: a \<open>store option\<close>.
\<close>

record store =
  conversation :: "conversation_doc list"
  message :: "message_doc list"
  next_oid :: nat

text \<open>\<open>db["conversation"].find_one({"_id": oid})\<close>: the first document with that \<open>_id\<close>.\<close>

definition find_one :: "nat \<Rightarrow> conversation_doc list \<Rightarrow> conversation_doc option" where
  "find_one i docs = find (\<lambda>d. conversation_oid d = i) docs"

text \<open>
  Modelled from the spec: \<open>create_document\<close> of the module \<open>database\<close>, which is not
  among the sources. The spec gives the store the operation
  \<open>insert(collection, doc) -> identifier\<close>, with the identifier assigned by the store at
  creation time, and reads messages back in creation order. Here for the collection
  \<open>message\<close>: the document is appended with a fresh identifier, whose string is returned.
\<close>

definition create_document :: "bson \<Rightarrow> store \<Rightarrow> message_data \<Rightarrow> pystr \<times> store" where
  "create_document lib st msg_data =
     (let i = next_oid st in
      (str_oid lib i,
       st\<lparr>message := message st @
            [\<lparr>role = role msg_data, content = content msg_data,
              conversation_id = conversation_id msg_data, message_oid = i\<rparr>],
          next_oid := Suc i\<rparr>))"

text \<open>
  \<^verbatim>\<open>
  def add_message(conversation_id: str, payload: MessageCreate):
      if db is None:
          raise HTTPException(status_code=500, detail="Database not available")
      if not ObjectId.is_valid(conversation_id):
          raise HTTPException(status_code=400, detail="Invalid conversation id")
      conv = db["conversation"].find_one({"_id": ObjectId(conversation_id)})
      if not conv:
          raise HTTPException(status_code=404, detail="Conversation not found")
      msg_data = payload.model_dump()
      msg_data["conversation_id"] = conversation_id
      inserted_id = create_document("message", msg_data)
      return {"id": inserted_id, "conversation_id": conversation_id,
              "role": payload.role, "content": payload.content}
  \<close>
  A handler returns its result, or the exception it raises, together with the database
  it leaves behind.
\<close>

definition add_message ::
  "bson \<Rightarrow> store option \<Rightarrow> pystr \<Rightarrow> MessageCreate \<Rightarrow> (http_exception + MessageOut) \<times> store option"
where
  "add_message lib db conv_id payload =
     (case db of
        None \<Rightarrow> (Inl (HTTPException 500 ''Database not available''), db)
      | Some st \<Rightarrow>
          if \<not> is_valid lib conv_id
          then (Inl (HTTPException 400 ''Invalid conversation id''), db)
          else
            (case find_one (ObjectId lib conv_id) (conversation st) of
               None \<Rightarrow> (Inl (HTTPException 404 ''Conversation not found''), db)
             | Some conv \<Rightarrow>
                 let msg_data = \<lparr>role = role payload, content = content payload,
                                 conversation_id = conv_id\<rparr>;
                     (inserted_id, st') = create_document lib st msg_data
                 in (Inr \<lparr>role = role payload, content = content payload,
                          conversation_id = conv_id, out_id = inserted_id\<rparr>,
                     Some st')))"

text \<open>
  \<^verbatim>\<open>
  def send_message(conversation_id: str, req: SendMessageRequest):
      if db is None:
          raise HTTPException(status_code=500, detail="Database not available")
      if not ObjectId.is_valid(conversation_id):
          raise HTTPException(status_code=400, detail="Invalid conversation id")
      user_msg = MessageCreate(role="user", content=req.content)
      _ = add_message(conversation_id, user_msg)
      reply_text = generate_ai_reply(req.content)
      assistant_msg = MessageCreate(role="assistant", content=reply_text)
      created = add_message(conversation_id, assistant_msg)
      return created
  \<close>
  An exception of the first \<open>add_message\<close> ends the call; what was stored before stays.
\<close>

definition send_message ::
  "bson \<Rightarrow> (pystr \<Rightarrow> pystr) \<Rightarrow> store option \<Rightarrow> pystr \<Rightarrow> SendMessageRequest
     \<Rightarrow> (http_exception + MessageOut) \<times> store option"
where
  "send_message lib ucd db conv_id req =
     (case db of
        None \<Rightarrow> (Inl (HTTPException 500 ''Database not available''), db)
      | Some st \<Rightarrow>
          if \<not> is_valid lib conv_id
          then (Inl (HTTPException 400 ''Invalid conversation id''), db)
          else
            let user_msg = \<lparr>role = lit ''user'', content = req_content req\<rparr> in
            (case add_message lib db conv_id user_msg of
               (Inl e, db1) \<Rightarrow> (Inl e, db1)
             | (Inr _, db1) \<Rightarrow>
                 let reply_text = generate_ai_reply ucd (Some (req_content req));
                     assistant_msg = \<lparr>role = lit ''assistant'', content = reply_text\<rparr>
                 in add_message lib db1 conv_id assistant_msg))"

section \<open>Tokens\<close>

text \<open>A token of \<open>split\<close>: a non-empty string without whitespace.\<close>

definition token :: "pystr \<Rightarrow> bool" where
  "token w = (w \<noteq> [] \<and> list_all (\<lambda>c. \<not> isspace c) w)"

section \<open>Evaluation and auxiliary facts\<close>

lemmas str_eval = lit_def split_def isspace_def strip_chars_def strip_where_def strip_def
  split_sep_def lower_def

lemma split_run_nospace:
  "list_all (\<lambda>c. \<not> isspace c) w \<Longrightarrow> split_run cur (w @ rest) = split_run (cur @ w) rest"
  by (induction w arbitrary: cur) simp_all

lemma isspace_32: "isspace 32"
  by (simp add: isspace_def)

lemma split_run_token_space:
  "token w \<Longrightarrow> split_run [] (w @ 32 # rest) = w # split_run [] rest"
  by (simp add: split_run_nospace token_def isspace_32)

lemma split_run_tokens:
  "list_all (\<lambda>c. \<not> isspace c) cur \<Longrightarrow> list_all token (split_run cur s)"
  by (induction s arbitrary: cur) (simp_all add: token_def)

lemma split_tokens: "list_all token (split s)"
  by (simp add: split_def split_run_tokens)

lemma split_run_join:
  "list_all token ws \<Longrightarrow> ws \<noteq> [] \<Longrightarrow>
     split_run [] (join [32] ws @ 32 # rest) = ws @ split_run [] rest"
proof (induction "[32::nat]" ws rule: join.induct)
  case 1
  then show ?case by simp
next
  case (2 x)
  then show ?case by (simp add: split_run_token_space)
next
  case (3 x y ys)
  then show ?case by (simp add: split_run_token_space)
qed

lemma split_summary:
  assumes "list_all token ws" and "ws \<noteq> []"
  shows "split (join (lit '' '') ws @ lit '' '' @ [8230]) = ws @ [[8230]]"
proof -
  have "split_run [] [8230] = [[8230]]"
    by (simp add: isspace_def)
  with split_run_join [OF assms, of "[8230]"] show ?thesis
    by (simp add: split_def lit_def)
qed

lemma split_summarize_long:
  assumes "12 < length (split x)"
  shows "split (summarize x) = take 12 (split x) @ [[8230]]"
proof -
  have tok: "list_all token (take 12 (split x))"
    using split_tokens [of x] unfolding list_all_iff by (meson in_set_takeD)
  have ne: "take 12 (split x) \<noteq> []"
    using assms by auto
  have "summarize x = join (lit '' '') (take 12 (split x)) @ lit '' '' @ [8230]"
    using assms by (simp add: summarize_def)
  then show ?thesis
    by (simp only: split_summary [OF tok ne])
qed

lemma join_Cons_nonempty: "x \<noteq> [] \<Longrightarrow> join sep (x # xs) \<noteq> []"
  by (cases xs) simp_all

lemma reflect_tokens_long:
  "w \<in> set (reflect_tokens s) \<Longrightarrow> 5 < length w \<and> w \<in> set (reflect_words s)"
  unfolding reflect_tokens_def by (auto dest!: in_set_takeD)

lemma join_reflect_tokens: "(join sep (reflect_tokens s) = []) = (reflect_tokens s = [])"
proof (cases "reflect_tokens s")
  case Nil
  then show ?thesis by simp
next
  case (Cons w ws)
  then have "5 < length w" using reflect_tokens_long [of w s] by simp
  then have "w \<noteq> []" by auto
  with Cons show ?thesis by (simp add: join_Cons_nonempty)
qed

lemma sort_eq_Nil: "(sort xs = []) = (xs = [])"
  by (metis length_sort length_0_conv)

lemma reflect_tokens_empty:
  "(reflect_tokens s = []) = (\<not> (\<exists>w \<in> set (reflect_words s). 5 < length w))"
  by (auto simp: reflect_tokens_def sort_eq_Nil filter_empty_conv)

lemma add_message_found:
  assumes "is_valid lib conv_id"
    and "find_one (ObjectId lib conv_id) (conversation st) = Some conv"
  shows "add_message lib (Some st) conv_id payload =
     (Inr \<lparr>role = role payload, content = content payload, conversation_id = conv_id,
           out_id = str_oid lib (next_oid st)\<rparr>,
      Some (st\<lparr>message := message st @
              [\<lparr>role = role payload, content = content payload, conversation_id = conv_id,
                message_oid = next_oid st\<rparr>],
            next_oid := Suc (next_oid st)\<rparr>))"
  using assms by (simp add: add_message_def create_document_def Let_def)

section \<open>Properties of the text utilities\<close>

text \<open>
  C7: for every input with at most 12 whitespace-separated tokens, \<open>summarize\<close> returns
  the input unchanged, and so \<open>summarize (summarize x) = summarize x\<close>.
\<close>

theorem summarize_short_unchanged:
  "length (split x) \<le> 12 \<Longrightarrow> summarize (summarize x) = summarize x \<and> summarize x = x"
  by (simp add: summarize_def)

theorem summarize_short_unchanged_witness:
  "length (split (lit ''  one   two '')) \<le> 12
   \<and> summarize (summarize (lit ''  one   two '')) = summarize (lit ''  one   two '')
   \<and> summarize (lit ''  one   two '') = lit ''  one   two ''"
proof -
  have h: "length (split (lit ''  one   two '')) \<le> 12"
    by (simp add: str_eval)
  from summarize_short_unchanged [OF h] h show ?thesis by simp
qed

text \<open>
  C9: \<open>summarize\<close> is idempotent on every input. Where the input has more than 12
  tokens, the tokens of the output are the first 12 tokens of the input and the
  ellipsis, 13 in all, and summarizing again joins the same 12 tokens and appends the
  same ellipsis.
\<close>

theorem summarize_idempotent:
  "summarize (summarize x) = summarize x
   \<and> (12 < length (split x) \<longrightarrow> split (summarize x) = take 12 (split x) @ [[8230]])"
proof (cases "length (split x) \<le> 12")
  case True
  then show ?thesis by (simp add: summarize_def)
next
  case False
  then have long: "12 < length (split x)" by simp
  have out: "summarize x = join (lit '' '') (take 12 (split x)) @ lit '' '' @ [8230]"
    using long by (simp add: summarize_def)
  have sp: "split (summarize x) = take 12 (split x) @ [[8230]]"
    by (rule split_summarize_long [OF long])
  have "summarize (summarize x) = summarize x"
    unfolding summarize_def [of "summarize x"] sp
    using long by (simp add: out)
  with sp show ?thesis by simp
qed

theorem summarize_idempotent_witness:
  "12 < length (split (lit ''a b c d e f g h i j k l m n''))
   \<and> summarize (lit ''a b c d e f g h i j k l m n'') = lit ''a b c d e f g h i j k l '' @ [8230]
   \<and> summarize (summarize (lit ''a b c d e f g h i j k l m n''))
       = summarize (lit ''a b c d e f g h i j k l m n'')
   \<and> split (summarize (lit ''a b c d e f g h i j k l m n''))
       = take 12 (split (lit ''a b c d e f g h i j k l m n'')) @ [[8230]]"
proof -
  have h: "12 < length (split (lit ''a b c d e f g h i j k l m n''))"
    by (simp add: str_eval)
  have v: "summarize (lit ''a b c d e f g h i j k l m n'') = lit ''a b c d e f g h i j k l '' @ [8230]"
    by (simp add: summarize_def str_eval)
  from summarize_idempotent [of "lit ''a b c d e f g h i j k l m n''"] h v show ?thesis
    by blast
qed

text \<open>
  C6: the tokens that \<open>reflect\<close> joins into its output are sorted in the lexicographic
  order of their code points, pairwise different, each a punctuation-stripped word of
  the input longer than 5 characters, and at most 6. When some stripped word is longer
  than 5 characters, the output is \<open>key points [U+2192]\<close> and these tokens separated by
  a comma and a space; when none is, it is the fallback \<open>sounds interesting!\<close>.
\<close>

theorem reflect_tokens_sorted_distinct_long_few:
  "sorted (reflect_tokens s) \<and> distinct (reflect_tokens s)
   \<and> (\<forall>w \<in> set (reflect_tokens s). 5 < length w \<and> w \<in> set (reflect_words s))
   \<and> length (reflect_tokens s) \<le> 6
   \<and> reflect s =
       (if \<exists>w \<in> set (reflect_words s). 5 < length w
        then lit ''key points '' @ [8594] @ lit '' '' @ join (lit '', '') (reflect_tokens s)
        else lit ''sounds interesting!'')"
proof -
  have srt: "sorted (reflect_tokens s)"
    unfolding reflect_tokens_def by (simp add: sorted_wrt_take)
  have dst: "distinct (reflect_tokens s)"
    unfolding reflect_tokens_def by (simp add: distinct_take)
  have lng: "\<forall>w \<in> set (reflect_tokens s). 5 < length w \<and> w \<in> set (reflect_words s)"
    using reflect_tokens_long by blast
  have few: "length (reflect_tokens s) \<le> 6"
    unfolding reflect_tokens_def by simp
  have out: "reflect s =
       (if \<exists>w \<in> set (reflect_words s). 5 < length w
        then lit ''key points '' @ [8594] @ lit '' '' @ join (lit '', '') (reflect_tokens s)
        else lit ''sounds interesting!'')"
    unfolding reflect_def Let_def join_reflect_tokens reflect_tokens_empty by simp
  from srt dst lng few out show ?thesis by blast
qed

theorem reflect_tokens_sorted_distinct_long_few_witness:
  "reflect_tokens (lit ''Wonderful, amazing!! wonderful Wonderful banana. zzz'')
     = [lit ''Wonderful'', lit ''amazing'', lit ''banana'', lit ''wonderful'']
   \<and> lit ''amazing'' \<in> set (reflect_tokens (lit ''Wonderful, amazing!! wonderful Wonderful banana. zzz''))
   \<and> 5 < length (lit ''amazing'')
   \<and> lit ''amazing'' \<in> set (reflect_words (lit ''Wonderful, amazing!! wonderful Wonderful banana. zzz''))
   \<and> sorted (reflect_tokens (lit ''Wonderful, amazing!! wonderful Wonderful banana. zzz''))
   \<and> distinct (reflect_tokens (lit ''Wonderful, amazing!! wonderful Wonderful banana. zzz''))
   \<and> length (reflect_tokens (lit ''Wonderful, amazing!! wonderful Wonderful banana. zzz'')) \<le> 6
   \<and> reflect (lit ''Wonderful, amazing!! wonderful Wonderful banana. zzz'')
       = lit ''key points '' @ [8594] @ lit '' Wonderful, amazing, banana, wonderful''
   \<and> reflect (lit ''So, it is done!'') = lit ''sounds interesting!''"
proof -
  let ?s = "lit ''Wonderful, amazing!! wonderful Wonderful banana. zzz''"
  have toks: "reflect_tokens ?s = [lit ''Wonderful'', lit ''amazing'', lit ''banana'', lit ''wonderful'']"
    by (simp add: reflect_tokens_def reflect_words_def str_eval sort_key_def)
  have mem: "lit ''amazing'' \<in> set (reflect_tokens ?s)"
    unfolding toks by simp
  have some: "\<exists>w \<in> set (reflect_words ?s). 5 < length w"
    using reflect_tokens_sorted_distinct_long_few [of ?s] mem by blast
  have out: "reflect ?s = lit ''key points '' @ [8594] @ lit '' Wonderful, amazing, banana, wonderful''"
    using reflect_tokens_sorted_distinct_long_few [of ?s] some
    by (simp add: toks) (simp add: lit_def)
  have none: "\<not> (\<exists>w \<in> set (reflect_words (lit ''So, it is done!'')). 5 < length w)"
    by (simp add: reflect_words_def str_eval)
  have fb: "reflect (lit ''So, it is done!'') = lit ''sounds interesting!''"
    using reflect_tokens_sorted_distinct_long_few [of "lit ''So, it is done!''"] none
    by simp
  from reflect_tokens_sorted_distinct_long_few [of ?s] mem toks out fb show ?thesis
    by (metis (no_types, lifting))
qed

section \<open>Properties of the reply engine\<close>

text \<open>
  C8: the empty prompt and the prompt of three spaces both get the fixed reply
  \<open>I'm here! Ask me anything.\<close>, and so does every prompt that is empty after trimming.
\<close>

theorem generate_ai_reply_blank:
  "generate_ai_reply ucd (Some []) = lit ''I'm here! Ask me anything.''
   \<and> generate_ai_reply ucd (Some (lit ''   '')) = lit ''I'm here! Ask me anything.''
   \<and> (\<forall>p. strip p = [] \<longrightarrow>
          generate_ai_reply ucd (Some p) = lit ''I'm here! Ask me anything.'')"
proof -
  have g: "strip p = [] \<Longrightarrow> generate_ai_reply ucd (Some p) = lit ''I'm here! Ask me anything.''"
    for p
    by (simp add: generate_ai_reply_def)
  have "strip [] = []"
    by (simp add: strip_def strip_where_def)
  moreover have "strip (lit ''   '') = []"
    by (simp add: str_eval)
  ultimately show ?thesis using g by blast
qed

theorem generate_ai_reply_blank_witness:
  "strip (lit '' '' @ [9, 10, 160]) = []
   \<and> generate_ai_reply id (Some (lit '' '' @ [9, 10, 160])) = lit ''I'm here! Ask me anything.''"
proof -
  have h: "strip (lit '' '' @ [9, 10, 160]) = []"
    by (simp add: str_eval)
  from generate_ai_reply_blank [of id] h show ?thesis by blast
qed

text \<open>
  C10: the prompt \<open>None\<close> is treated as the empty string: the reply to \<open>None\<close> is the
  reply to the empty string, the fixed reply \<open>I'm here! Ask me anything.\<close>
\<close>

theorem generate_ai_reply_None:
  "generate_ai_reply ucd None = generate_ai_reply ucd (Some [])
   \<and> generate_ai_reply ucd None = lit ''I'm here! Ask me anything.''"
  by (simp add: generate_ai_reply_def strip_def strip_where_def)

text \<open>
  C3, as the code has it: the prompt
  \<open>/summarize one two three four five six seven eight nine ten eleven twelve thirteen\<close>
  gets the greeting reply, since its lowercased form contains \<open>hi\<close> (in \<open>thirteen\<close>) and
  the greeting rule comes before the \<open>/summarize\<close> rule. What the \<open>/summarize\<close> rule
  computes from this prompt, had it been reached, is
  \<open>Summary: one two three four five six seven eight nine ten eleven twelve [U+2026]\<close>.
\<close>

theorem generate_ai_reply_summarize_thirteen:
  "generate_ai_reply ucd (Some (lit
      ''/summarize one two three four five six seven eight nine ten eleven twelve thirteen''))
     = lit ''Hey there! How can I help you today?''
   \<and> contains (lower ucd (strip (lit
      ''/summarize one two three four five six seven eight nine ten eleven twelve thirteen'')))
        (lit ''hi'')
   \<and> lit ''Summary: '' @ summarize (strip (drop (length (lit ''/summarize'')) (lit
      ''/summarize one two three four five six seven eight nine ten eleven twelve thirteen'')))
     = lit ''Summary: one two three four five six seven eight nine ten eleven twelve '' @ [8230]"
proof -
  have a: "generate_ai_reply ucd (Some (lit
      ''/summarize one two three four five six seven eight nine ten eleven twelve thirteen''))
     = lit ''Hey there! How can I help you today?''"
    by (simp add: generate_ai_reply_def str_eval)
  have b: "contains (lower ucd (strip (lit
      ''/summarize one two three four five six seven eight nine ten eleven twelve thirteen'')))
        (lit ''hi'')"
    by (simp add: str_eval)
  have c: "lit ''Summary: '' @ summarize (strip (drop (length (lit ''/summarize'')) (lit
      ''/summarize one two three four five six seven eight nine ten eleven twelve thirteen'')))
     = lit ''Summary: one two three four five six seven eight nine ten eleven twelve '' @ [8230]"
    by (simp add: summarize_def str_eval)
  from a b c show ?thesis by simp
qed

text \<open>
  C3 as stated fails: the reply to that prompt is not the summary.
\<close>

theorem generate_ai_reply_summarize_thirteen_counterexample:
  "generate_ai_reply id (Some (lit
      ''/summarize one two three four five six seven eight nine ten eleven twelve thirteen''))
     \<noteq> lit ''Summary: one two three four five six seven eight nine ten eleven twelve '' @ [8230]"
  by (simp add: generate_ai_reply_def str_eval)

text \<open>
  C4, as the code has it: the prompt \<open>/todo buy milk, walk dog\<close> gets the header
  \<open>Here[U+2019]s your checklist:\<close>, written with the right single quotation mark
  U+2019, a newline, and the four lines \<open>[U+2022] buy\<close>, \<open>[U+2022] milk,\<close>,
  \<open>[U+2022] walk\<close>, \<open>[U+2022] dog\<close> joined by newlines.
\<close>

theorem generate_ai_reply_todo:
  "generate_ai_reply ucd (Some (lit ''/todo buy milk, walk dog''))
     = lit ''Here'' @ [8217] @ lit ''s your checklist:'' @ [10]
       @ [8226] @ lit '' buy'' @ [10] @ [8226] @ lit '' milk,'' @ [10]
       @ [8226] @ lit '' walk'' @ [10] @ [8226] @ lit '' dog''"
  by (simp add: generate_ai_reply_def todo_reply_def str_eval)

text \<open>
  C4 as stated fails: the reply is not the string whose header is written with the
  ASCII apostrophe.
\<close>

theorem generate_ai_reply_todo_counterexample:
  "generate_ai_reply id (Some (lit ''/todo buy milk, walk dog''))
     \<noteq> lit ''Here's your checklist:'' @ [10]
       @ [8226] @ lit '' buy'' @ [10] @ [8226] @ lit '' milk,'' @ [10]
       @ [8226] @ lit '' walk'' @ [10] @ [8226] @ lit '' dog''"
  by (simp add: generate_ai_reply_def todo_reply_def str_eval)

text \<open>
  C5, as the code has it: a prompt that is not empty after trimming, whose trimmed and
  lowercased form contains none of \<open>hello\<close>, \<open>hi\<close>, \<open>hey\<close> and either starts with
  \<open>/help\<close> or contains \<open>help\<close>, gets the fixed reply that describes the capabilities.
  A prompt such as \<open>unhelpful\<close> takes this branch.
\<close>

theorem generate_ai_reply_help:
  assumes "strip p \<noteq> []"
    and "\<not> contains (lower ucd (strip p)) (lit ''hello'')"
    and "\<not> contains (lower ucd (strip p)) (lit ''hi'')"
    and "\<not> contains (lower ucd (strip p)) (lit ''hey'')"
    and "startswith (lower ucd (strip p)) (lit ''/help'')
         \<or> contains (lower ucd (strip p)) (lit ''help'')"
  shows "generate_ai_reply ucd (Some p) =
     lit ''I can answer questions, summarize, or brainstorm ideas. Just type your message!''"
  using assms by (simp add: generate_ai_reply_def Let_def)

theorem generate_ai_reply_help_witness:
  "strip (lit '' UnHelpful '') \<noteq> []
   \<and> \<not> contains (lower id (strip (lit '' UnHelpful ''))) (lit ''hello'')
   \<and> \<not> contains (lower id (strip (lit '' UnHelpful ''))) (lit ''hi'')
   \<and> \<not> contains (lower id (strip (lit '' UnHelpful ''))) (lit ''hey'')
   \<and> contains (lower id (strip (lit '' UnHelpful ''))) (lit ''help'')
   \<and> generate_ai_reply id (Some (lit '' UnHelpful '')) =
       lit ''I can answer questions, summarize, or brainstorm ideas. Just type your message!''"
proof -
  have h1: "strip (lit '' UnHelpful '') \<noteq> []"
    by (simp add: str_eval)
  have h2: "\<not> contains (lower id (strip (lit '' UnHelpful ''))) (lit ''hello'')"
    by (simp add: str_eval)
  have h3: "\<not> contains (lower id (strip (lit '' UnHelpful ''))) (lit ''hi'')"
    by (simp add: str_eval)
  have h4: "\<not> contains (lower id (strip (lit '' UnHelpful ''))) (lit ''hey'')"
    by (simp add: str_eval)
  have h5: "contains (lower id (strip (lit '' UnHelpful ''))) (lit ''help'')"
    by (simp add: str_eval)
  from generate_ai_reply_help [OF h1 h2 h3 h4 disjI2 [OF h5]] h1 h2 h3 h4 h5
  show ?thesis by blast
qed

text \<open>
  C5 as stated fails in its example: the prompt \<open>healthy\<close> is not empty and contains
  none of \<open>hello\<close>, \<open>hi\<close>, \<open>hey\<close>, but it does not contain \<open>help\<close> either, and its
  reply is the reflective one.
\<close>

theorem generate_ai_reply_help_counterexample:
  "strip (lit ''healthy'') \<noteq> []
   \<and> \<not> contains (lower id (strip (lit ''healthy''))) (lit ''hello'')
   \<and> \<not> contains (lower id (strip (lit ''healthy''))) (lit ''hi'')
   \<and> \<not> contains (lower id (strip (lit ''healthy''))) (lit ''hey'')
   \<and> \<not> contains (lower id (strip (lit ''healthy''))) (lit ''help'')
   \<and> generate_ai_reply id (Some (lit ''healthy''))
       = lit ''You said: '' @ [39] @ lit ''healthy'' @ [39]
         @ lit ''. Here's a helpful thought: key points '' @ [8594] @ lit '' healthy''
   \<and> generate_ai_reply id (Some (lit ''healthy''))
       \<noteq> lit ''I can answer questions, summarize, or brainstorm ideas. Just type your message!''"
proof -
  have h: "strip (lit ''healthy'') \<noteq> []
     \<and> \<not> contains (lower id (strip (lit ''healthy''))) (lit ''hello'')
     \<and> \<not> contains (lower id (strip (lit ''healthy''))) (lit ''hi'')
     \<and> \<not> contains (lower id (strip (lit ''healthy''))) (lit ''hey'')
     \<and> \<not> contains (lower id (strip (lit ''healthy''))) (lit ''help'')"
    by (simp add: str_eval)
  have v: "generate_ai_reply id (Some (lit ''healthy''))
       = lit ''You said: '' @ [39] @ lit ''healthy'' @ [39]
         @ lit ''. Here's a helpful thought: key points '' @ [8594] @ lit '' healthy''"
    by (simp add: generate_ai_reply_def reflect_def reflect_tokens_def reflect_words_def
        str_eval sort_key_def)
  have d: "lit ''You said: '' @ [39] @ lit ''healthy'' @ [39]
         @ lit ''. Here's a helpful thought: key points '' @ [8594] @ lit '' healthy''
       \<noteq> lit ''I can answer questions, summarize, or brainstorm ideas. Just type your message!''"
    by (simp add: lit_def)
  from h v d show ?thesis by simp
qed

section \<open>Properties of the message exchange\<close>

text \<open>
  C1: for a valid conversation id that references an existing conversation and every
  content, \<open>send_message\<close> appends exactly two messages to the collection, first the
  one with role \<open>user\<close> and the request's content, then the one with role \<open>assistant\<close>
  whose content is \<open>generate_ai_reply\<close> of that content, and returns the record of the
  assistant message, with the identifier the store gave it.
\<close>

theorem send_message_stores_user_then_assistant:
  assumes "is_valid lib conv_id"
    and "find_one (ObjectId lib conv_id) (conversation st) = Some conv"
  shows "send_message lib ucd (Some st) conv_id req =
     (Inr \<lparr>role = lit ''assistant'',
           content = generate_ai_reply ucd (Some (req_content req)),
           conversation_id = conv_id,
           out_id = str_oid lib (Suc (next_oid st))\<rparr>,
      Some (st\<lparr>message := message st @
              [\<lparr>role = lit ''user'', content = req_content req,
                conversation_id = conv_id, message_oid = next_oid st\<rparr>,
               \<lparr>role = lit ''assistant'',
                content = generate_ai_reply ucd (Some (req_content req)),
                conversation_id = conv_id, message_oid = Suc (next_oid st)\<rparr>],
            next_oid := Suc (Suc (next_oid st))\<rparr>))"
proof -
  let ?user = "\<lparr>role = lit ''user'', content = req_content req\<rparr>"
  let ?st1 = "st\<lparr>message := message st @
              [\<lparr>role = lit ''user'', content = req_content req,
                conversation_id = conv_id, message_oid = next_oid st\<rparr>],
            next_oid := Suc (next_oid st)\<rparr>"
  have first: "add_message lib (Some st) conv_id ?user =
      (Inr \<lparr>role = lit ''user'', content = req_content req, conversation_id = conv_id,
            out_id = str_oid lib (next_oid st)\<rparr>, Some ?st1)"
    using add_message_found [OF assms, of ?user] by simp
  have still: "find_one (ObjectId lib conv_id) (conversation ?st1) = Some conv"
    using assms(2) by simp
  show ?thesis
    unfolding send_message_def
    using assms(1) first add_message_found [OF assms(1) still]
    by (simp add: Let_def)
qed

theorem send_message_stores_user_then_assistant_witness:
  "is_valid \<lparr>is_valid = (\<lambda>s. length s = 24),
             ObjectId = foldl (\<lambda>n c. 16 * n + (c - 48)) 0,
             str_oid = (\<lambda>n. lit ''00000000000000000000000'' @ [48 + n])\<rparr>
     (lit ''000000000000000000000007'')
   \<and> find_one (ObjectId \<lparr>is_valid = (\<lambda>s. length s = 24),
             ObjectId = foldl (\<lambda>n c. 16 * n + (c - 48)) 0,
             str_oid = (\<lambda>n. lit ''00000000000000000000000'' @ [48 + n])\<rparr>
               (lit ''000000000000000000000007''))
       [\<lparr>conversation_oid = 7, title = lit ''Plans'', created_by = None\<rparr>]
     = Some \<lparr>conversation_oid = 7, title = lit ''Plans'', created_by = None\<rparr>
   \<and> send_message
       \<lparr>is_valid = (\<lambda>s. length s = 24),
        ObjectId = foldl (\<lambda>n c. 16 * n + (c - 48)) 0,
        str_oid = (\<lambda>n. lit ''00000000000000000000000'' @ [48 + n])\<rparr>
       id
       (Some \<lparr>conversation = [\<lparr>conversation_oid = 7, title = lit ''Plans'', created_by = None\<rparr>],
              message = [], next_oid = 8\<rparr>)
       (lit ''000000000000000000000007'')
       \<lparr>req_content = lit ''/todo tea''\<rparr>
     = (Inr \<lparr>role = lit ''assistant'',
             content = lit ''Here'' @ [8217] @ lit ''s your checklist:'' @ [10, 8226] @ lit '' tea'',
             conversation_id = lit ''000000000000000000000007'',
             out_id = lit ''000000000000000000000009''\<rparr>,
        Some \<lparr>conversation = [\<lparr>conversation_oid = 7, title = lit ''Plans'', created_by = None\<rparr>],
              message =
                [\<lparr>role = lit ''user'', content = lit ''/todo tea'',
                  conversation_id = lit ''000000000000000000000007'', message_oid = 8\<rparr>,
                 \<lparr>role = lit ''assistant'',
                  content = lit ''Here'' @ [8217] @ lit ''s your checklist:'' @ [10, 8226] @ lit '' tea'',
                  conversation_id = lit ''000000000000000000000007'', message_oid = 9\<rparr>],
              next_oid = 10\<rparr>)"
proof -
  let ?lib = "\<lparr>is_valid = (\<lambda>s. length s = 24),
             ObjectId = foldl (\<lambda>n c. 16 * n + (c - 48)) 0,
             str_oid = (\<lambda>n. lit ''00000000000000000000000'' @ [48 + n])\<rparr>"
  let ?conv = "\<lparr>conversation_oid = 7, title = lit ''Plans'', created_by = None\<rparr>"
  let ?st = "\<lparr>conversation = [?conv], message = [], next_oid = 8\<rparr>"
  have h1: "is_valid ?lib (lit ''000000000000000000000007'')"
    by (simp add: lit_def)
  have h2: "find_one (ObjectId ?lib (lit ''000000000000000000000007'')) (conversation ?st)
      = Some ?conv"
    by (simp add: find_one_def lit_def)
  have r: "generate_ai_reply id (Some (lit ''/todo tea''))
      = lit ''Here'' @ [8217] @ lit ''s your checklist:'' @ [10, 8226] @ lit '' tea''"
    by (simp add: generate_ai_reply_def todo_reply_def str_eval)
  have s: "send_message ?lib id (Some ?st) (lit ''000000000000000000000007'')
       \<lparr>req_content = lit ''/todo tea''\<rparr>
     = (Inr \<lparr>role = lit ''assistant'',
             content = lit ''Here'' @ [8217] @ lit ''s your checklist:'' @ [10, 8226] @ lit '' tea'',
             conversation_id = lit ''000000000000000000000007'',
             out_id = lit ''000000000000000000000009''\<rparr>,
        Some \<lparr>conversation = [?conv],
              message =
                [\<lparr>role = lit ''user'', content = lit ''/todo tea'',
                  conversation_id = lit ''000000000000000000000007'', message_oid = 8\<rparr>,
                 \<lparr>role = lit ''assistant'',
                  content = lit ''Here'' @ [8217] @ lit ''s your checklist:'' @ [10, 8226] @ lit '' tea'',
                  conversation_id = lit ''000000000000000000000007'', message_oid = 9\<rparr>],
              next_oid = 10\<rparr>)"
    using send_message_stores_user_then_assistant
        [OF h1 h2, of id "\<lparr>req_content = lit ''/todo tea''\<rparr>"] r
    by (simp add: lit_def)
  from h1 h2 s show ?thesis by simp
qed

text \<open>
  C2: for a valid conversation id that references no existing conversation,
  \<open>send_message\<close> raises the exception with status 404 and detail
  \<open>Conversation not found\<close>, and the database is the one it started from: no message
  is inserted.
\<close>

theorem send_message_unknown_conversation:
  assumes "is_valid lib conv_id"
    and "find_one (ObjectId lib conv_id) (conversation st) = None"
  shows "send_message lib ucd (Some st) conv_id req =
     (Inl (HTTPException 404 ''Conversation not found''), Some st)"
  using assms by (simp add: send_message_def add_message_def)

theorem send_message_unknown_conversation_witness:
  "is_valid \<lparr>is_valid = (\<lambda>s. length s = 24),
             ObjectId = foldl (\<lambda>n c. 16 * n + (c - 48)) 0,
             str_oid = (\<lambda>n. lit ''00000000000000000000000'' @ [48 + n])\<rparr>
     (lit ''000000000000000000000003'')
   \<and> find_one (ObjectId \<lparr>is_valid = (\<lambda>s. length s = 24),
             ObjectId = foldl (\<lambda>n c. 16 * n + (c - 48)) 0,
             str_oid = (\<lambda>n. lit ''00000000000000000000000'' @ [48 + n])\<rparr>
               (lit ''000000000000000000000003''))
       [\<lparr>conversation_oid = 7, title = lit ''Plans'', created_by = None\<rparr>]
     = None
   \<and> send_message
       \<lparr>is_valid = (\<lambda>s. length s = 24),
        ObjectId = foldl (\<lambda>n c. 16 * n + (c - 48)) 0,
        str_oid = (\<lambda>n. lit ''00000000000000000000000'' @ [48 + n])\<rparr>
       id
       (Some \<lparr>conversation = [\<lparr>conversation_oid = 7, title = lit ''Plans'', created_by = None\<rparr>],
              message = [], next_oid = 8\<rparr>)
       (lit ''000000000000000000000003'')
       \<lparr>req_content = lit ''/todo tea''\<rparr>
     = (Inl (HTTPException 404 ''Conversation not found''),
        Some \<lparr>conversation = [\<lparr>conversation_oid = 7, title = lit ''Plans'', created_by = None\<rparr>],
              message = [], next_oid = 8\<rparr>)"
proof -
  let ?lib = "\<lparr>is_valid = (\<lambda>s. length s = 24),
             ObjectId = foldl (\<lambda>n c. 16 * n + (c - 48)) 0,
             str_oid = (\<lambda>n. lit ''00000000000000000000000'' @ [48 + n])\<rparr>"
  let ?conv = "\<lparr>conversation_oid = 7, title = lit ''Plans'', created_by = None\<rparr>"
  let ?st = "\<lparr>conversation = [?conv], message = [], next_oid = 8\<rparr>"
  have h1: "is_valid ?lib (lit ''000000000000000000000003'')"
    by (simp add: lit_def)
  have h2: "find_one (ObjectId ?lib (lit ''000000000000000000000003'')) (conversation ?st) = None"
    by (simp add: find_one_def lit_def)
  from send_message_unknown_conversation [OF h1 h2] h1 h2 show ?thesis by simp
qed

end
